theory Spec2Isabelle
  imports Main "HOL-Library.Multiset" "HOL-Library.Char_ord" "HOL-Library.List_Lexorder"
    "HOL-Library.Product_Lexorder"
begin

section \<open>Tables\<close>

text \<open>
  The program (\<^verbatim>\<open>main.py\<close>) works on pandas DataFrames. A DataFrame is modelled
  column by column, as the list of its columns in order; a column is its label with its
  cells. Labels may repeat (\<^verbatim>\<open>rename\<close> can make them repeat), so the list is
  an association list and not a map.

  A cell is an integer, a text or the missing value NaN. Cells with decimals are outside
  the model. The integer of a cell is a number without bound; the width of the machine
  numbers comes in with the dtype of a column (\<open>dtype_of\<close> below) and with the sums
  over it: a sum of int64 wraps around, and a sum of float64 is exact below \<open>2^53\<close>.
\<close>

datatype cell = IntV int | StrV string | NaN

type_synonym dataframe = "(string \<times> cell list) list"

definition columns :: "dataframe \<Rightarrow> string list" where
  "columns df = map fst df"

text \<open>\<^verbatim>\<open>len(df)\<close>: the number of rows.\<close>

fun nrows :: "dataframe \<Rightarrow> nat" where
  "nrows [] = 0"
| "nrows ((label, cells) # df) = length cells"


text \<open>The exceptions the program meets, and the lines it logs and prints.\<close>

datatype exn =
    FileNotFoundError
  | EmptyDataError
  | ParserError
  | MissingRequired "string list"
  | KeyError string
  | NotOneDimensional string
  | DtypeObject
  | UnsupportedOperand
  | InvalidIndexError
  | PermissionError
  | OtherError

datatype target = Merged | Grouped

datatype event =
    InfoRawFirstLine string
  | ErrorFirstParse exn
  | ErrorSecondParse exn
  | InfoFile
  | InfoTotalRows nat
  | InfoColumnsFound "string list"
  | ErrorColumnMissing string
  | InfoLoaded
  | ErrorFileNotFound
  | ErrorNoData
  | ErrorParsing
  | ErrorUnexpectedLoad exn
  | InfoTop int int
  | PrintTop int nat cell int
  | ErrorTopNames int exn
  | InfoExported target
  | ErrorPermission target
  | ErrorExport target exn
  | InfoTopSexe string
  | PrintTopSexe string nat cell int
  | ErrorBySexe exn
  | ErrorMain exn

section \<open>The loader\<close>

text \<open>
  \<^verbatim>\<open>load_csv_file(filename, sep, encoding)\<close> reads the file system. What it finds
  there is the record below: whether \<^verbatim>\<open>os.path.exists\<close> holds, what
  \<^verbatim>\<open>open\<close> and \<^verbatim>\<open>readline().strip()\<close> give (a line or an exception), and
  what \<^verbatim>\<open>pd.read_csv\<close> gives for a separator, with the default engine and with
  \<^verbatim>\<open>engine='python'\<close>.
\<close>

record csv_file =
  file_exists :: bool
  raw_first_line :: "exn + string"
  c_engine :: "string \<Rightarrow> exn + dataframe"
  python_engine :: "string \<Rightarrow> exn + dataframe"

text \<open>
  Lines 38 to 48: both attempts parse with \<^verbatim>\<open>sep=','\<close>; the argument
  \<^verbatim>\<open>sep\<close> of the loader is not used.
\<close>

definition read_csv_strategies :: "csv_file \<Rightarrow> event list \<times> (exn + dataframe)" where
  "read_csv_strategies f =
     (case c_engine f '','' of
        Inr df \<Rightarrow> ([], Inr df)
      | Inl e \<Rightarrow>
          (case python_engine f '','' of
             Inr df \<Rightarrow> ([ErrorFirstParse e], Inr df)
           | Inl e' \<Rightarrow> ([ErrorFirstParse e, ErrorSecondParse e'], Inl e')))"

definition required_columns :: "(string \<times> string) list" where
  "required_columns = [(''sexe'', ''Sexe''), (''prenom'', ''Prenom''), (''nombre'', ''Nombre'')]"

text \<open>Lines 63 to 67: the required labels that are not among the columns, in the dict's order.\<close>

definition missing_columns :: "dataframe \<Rightarrow> string list" where
  "missing_columns df = filter (\<lambda>col. col \<notin> set (columns df)) (map fst required_columns)"

text \<open>Line 73: \<^verbatim>\<open>df.rename(columns=required_columns)\<close>; other labels stay.\<close>

definition rename_label :: "string \<Rightarrow> string" where
  "rename_label label = (case map_of required_columns label of Some l \<Rightarrow> l | None \<Rightarrow> label)"

definition rename :: "dataframe \<Rightarrow> dataframe" where
  "rename df = map (\<lambda>(label, cells). (rename_label label, cells)) df"

text \<open>
  Line 76: \<^verbatim>\<open>.map({1: 'M', 2: 'F'})\<close> on one cell; a value that is not a key of the
  dict becomes NaN.
\<close>

definition sexe_code :: "cell \<Rightarrow> cell" where
  "sexe_code c = (if c = IntV 1 then StrV ''M'' else if c = IntV 2 then StrV ''F'' else NaN)"

text \<open>
  Line 76 on the table. When the label \<^verbatim>\<open>Sexe\<close> occurs twice after renaming,
  \<^verbatim>\<open>df['Sexe']\<close> is a DataFrame and not a Series, and \<^verbatim>\<open>.map\<close> with a
  dict raises (pandas before 2.1 has no \<^verbatim>\<open>DataFrame.map\<close>, later versions
  refuse an argument that is not callable; that they let a table without rows through is
  not modelled).
\<close>

definition map_sexe :: "dataframe \<Rightarrow> exn + dataframe" where
  "map_sexe df =
     (if count_list (columns df) ''Sexe'' = 1
      then Inr (map (\<lambda>(label, cells).
                  (label, if label = ''Sexe'' then map sexe_code cells else cells)) df)
      else Inl OtherError)"

text \<open>The \<^verbatim>\<open>try\<close> block of the loader, lines 29 to 79.\<close>

definition load_try :: "csv_file \<Rightarrow> event list \<times> (exn + dataframe)" where
  "load_try f =
     (if \<not> file_exists f then ([], Inl FileNotFoundError)
      else case raw_first_line f of
        Inl e \<Rightarrow> ([], Inl e)
      | Inr line \<Rightarrow>
          (case read_csv_strategies f of
             (log1, Inl e) \<Rightarrow> (InfoRawFirstLine line # log1, Inl e)
           | (log1, Inr df) \<Rightarrow>
               (let log2 = InfoRawFirstLine line # log1
                      @ [InfoFile, InfoTotalRows (nrows df), InfoColumnsFound (columns df)]
                      @ map ErrorColumnMissing (missing_columns df)
                in if missing_columns df \<noteq> []
                   then (log2, Inl (MissingRequired (missing_columns df)))
                   else case map_sexe (rename df) of
                          Inl e \<Rightarrow> (log2, Inl e)
                        | Inr df' \<Rightarrow> (log2 @ [InfoLoaded], Inr df'))))"

text \<open>The four handlers, lines 81 to 92: each logs one line, then \<^verbatim>\<open>sys.exit(1)\<close>.\<close>

definition load_handler :: "exn \<Rightarrow> event" where
  "load_handler e =
     (if e = FileNotFoundError then ErrorFileNotFound
      else if e = EmptyDataError then ErrorNoData
      else if e = ParserError then ErrorParsing
      else ErrorUnexpectedLoad e)"

text \<open>
  \<^verbatim>\<open>load_csv_file\<close>: the log, and either the exit status of the process
  (\<open>Inl\<close>) or the table returned (\<open>Inr\<close>).
\<close>

definition load_csv_file :: "csv_file \<Rightarrow> string \<Rightarrow> event list \<times> (int + dataframe)" where
  "load_csv_file f sep =
     (case load_try f of
        (log, Inl e) \<Rightarrow> (log @ [load_handler e], Inl 1)
      | (log, Inr df) \<Rightarrow> (log, Inr df))"

section \<open>The aggregator\<close>

text \<open>
  \<^verbatim>\<open>df[label]\<close>: the columns that carry the label. One column is a Series;
  several are a DataFrame; none raises KeyError.
\<close>

definition select :: "string \<Rightarrow> dataframe \<Rightarrow> cell list list" where
  "select label df = map snd (filter (\<lambda>(l, cells). l = label) df)"

fun is_text :: "cell \<Rightarrow> bool" where
  "is_text (StrV s) = True"
| "is_text _ = False"

text \<open>What a cell adds to a sum of numbers: \<^verbatim>\<open>sum\<close> skips NaN.\<close>

fun count_of :: "cell \<Rightarrow> int" where
  "count_of (IntV i) = i"
| "count_of _ = 0"

text \<open>
  The dtype of a column, as \<^verbatim>\<open>pd.read_csv\<close> infers it from the cells. A column
  without cells (the file holds a header record only) and a column that holds a text have
  dtype object. A column of integers that fit 64 bits has dtype int64. A column of
  integers with a missing cell has dtype float64. An integer beyond 64 bits does not occur
  in a column of dtype int64 (pandas holds such a column as uint64 or as object); such a
  column is counted with float64 here, and no statement below gives the value of its
  sums, since each one that depends on the value assumes the bound \<open>2 ^ 53\<close>.
\<close>

datatype dtype = Int64 | Float64 | ObjectDtype

fun in_int64 :: "cell \<Rightarrow> bool" where
  "in_int64 (IntV i) = (- (2 ^ 63) \<le> i \<and> i < 2 ^ 63)"
| "in_int64 _ = False"

definition dtype_of :: "cell list \<Rightarrow> dtype" where
  "dtype_of cells =
     (if cells = [] \<or> list_ex is_text cells then ObjectDtype
      else if list_all in_int64 cells then Int64
      else Float64)"

text \<open>
  \<^verbatim>\<open>groupby\<close> sorts the group keys (\<^verbatim>\<open>sort=True\<close>) and drops the rows whose key
  is NaN (\<^verbatim>\<open>dropna=True\<close>). Numbers sort before texts; texts compare as Python
  strings do, character by character.
\<close>

fun cell_key :: "cell \<Rightarrow> nat \<times> int \<times> string" where
  "cell_key (IntV i) = (0, i, [])"
| "cell_key (StrV s) = (1, 0, s)"
| "cell_key NaN = (2, 0, [])"

definition group_keys :: "cell list \<Rightarrow> cell list" where
  "group_keys names = sort_key cell_key (remdups (filter (\<lambda>c. c \<noteq> NaN) names))"

text \<open>
  The sum of a group of a numeric column. \<open>exact_total\<close> is the sum of the counts of the
  records with the given name, as a number. In a column of dtype int64 the machine
  addition wraps around at \<open>2 ^ 63\<close>. In a column of dtype float64 the sum is the
  exact one as long as the absolute values of the counts add up to less than
  \<open>2 ^ 53\<close>: then every partial sum, in any order, is an integer that a float holds
  exactly. Beyond that bound the float sum is rounded, which is not modelled;
  \<open>exact_sums\<close> is the condition under which neither wrapping nor rounding occurs, and
  every statement below that depends on the value of a float sum assumes the bound.
\<close>

definition wrap64 :: "int \<Rightarrow> int" where
  "wrap64 x = (x + 2 ^ 63) mod 2 ^ 64 - 2 ^ 63"

definition exact_total :: "(cell \<times> cell) list \<Rightarrow> cell \<Rightarrow> int" where
  "exact_total records k =
     sum_list (map (\<lambda>(name, n). count_of n) (filter (\<lambda>(name, n). name = k) records))"

definition group_total :: "dtype \<Rightarrow> (cell \<times> cell) list \<Rightarrow> cell \<Rightarrow> int" where
  "group_total dt records k =
     (if dt = Int64 then wrap64 (exact_total records k) else exact_total records k)"



definition group_totals :: "dtype \<Rightarrow> cell list \<Rightarrow> cell list \<Rightarrow> (cell \<times> int) list" where
  "group_totals dt names counts =
     map (\<lambda>k. (k, group_total dt (zip names counts) k)) (group_keys names)"

text \<open>
  The sum of a group of a column of dtype object: the cells that are not NaN are added
  with Python's \<^verbatim>\<open>+\<close>, in the order of the rows, starting from the first of them.
  Two texts are joined, two numbers are added (Python integers do not wrap), and a number
  and a text raise TypeError. A group without such a cell sums to 0.
\<close>

fun add_object :: "cell \<Rightarrow> cell \<Rightarrow> exn + cell" where
  "add_object (IntV a) (IntV b) = Inr (IntV (a + b))"
| "add_object (StrV a) (StrV b) = Inr (StrV (a @ b))"
| "add_object a b = Inl UnsupportedOperand"

fun sum_object :: "cell option \<Rightarrow> cell list \<Rightarrow> exn + cell" where
  "sum_object acc [] = Inr (case acc of None \<Rightarrow> IntV 0 | Some t \<Rightarrow> t)"
| "sum_object acc (c # cs) =
     (if c = NaN then sum_object acc cs
      else case acc of
             None \<Rightarrow> sum_object (Some c) cs
           | Some t \<Rightarrow>
               (case add_object t c of
                  Inl e \<Rightarrow> Inl e
                | Inr t' \<Rightarrow> sum_object (Some t') cs))"

definition object_total :: "(cell \<times> cell) list \<Rightarrow> cell \<Rightarrow> exn + cell" where
  "object_total records k =
     sum_object None (map snd (filter (\<lambda>(name, n). name = k) records))"

fun all_totals :: "(cell \<times> (exn + cell)) list \<Rightarrow> exn + (cell \<times> cell) list" where
  "all_totals [] = Inr []"
| "all_totals ((k, Inl e) # rest) = Inl e"
| "all_totals ((k, Inr t) # rest) =
     (case all_totals rest of Inl e \<Rightarrow> Inl e | Inr ts \<Rightarrow> Inr ((k, t) # ts))"

definition object_totals :: "cell list \<Rightarrow> cell list \<Rightarrow> exn + (cell \<times> cell) list" where
  "object_totals names counts =
     all_totals (map (\<lambda>k. (k, object_total (zip names counts) k)) (group_keys names))"

text \<open>
  The result of \<^verbatim>\<open>sum\<close>: a Series indexed by name, of numbers for a numeric column
  and of objects for a column of dtype object. When the label \<^verbatim>\<open>Nombre\<close> occurs twice
  the result is a DataFrame, of which only the kind is modelled.
\<close>

datatype series = Numeric "(cell \<times> int) list" | Object "(cell \<times> cell) list" | Frame

text \<open>
  \<^verbatim>\<open>groupby(names)[counts].sum()\<close> for one column of names and one column of counts
  whose dtype is the one given.
\<close>

definition sum_by_name :: "dtype \<Rightarrow> cell list \<Rightarrow> cell list \<Rightarrow> exn + series" where
  "sum_by_name dt names counts =
     (if dt = ObjectDtype
      then (case object_totals names counts of
              Inl e \<Rightarrow> Inl e
            | Inr totals \<Rightarrow> Inr (Object totals))
      else Inr (Numeric (group_totals dt names counts)))"

text \<open>
  \<^verbatim>\<open>df.groupby("Prenom")["Nombre"].sum()\<close>, as in lines 104 and 155.
  \<^verbatim>\<open>groupby\<close> raises when the label \<^verbatim>\<open>Prenom\<close> is absent (KeyError) or occurs
  twice (the grouper is not one-dimensional); \<^verbatim>\<open>["Nombre"]\<close> raises KeyError when
  that label is absent; \<^verbatim>\<open>sum\<close> raises TypeError when a group of a column of dtype
  object mixes numbers and texts.
\<close>

definition groupby_sum :: "dataframe \<Rightarrow> exn + series" where
  "groupby_sum df =
     (case select ''Prenom'' df of
        [] \<Rightarrow> Inl (KeyError ''Prenom'')
      | [names] \<Rightarrow>
          (case select ''Nombre'' df of
             [] \<Rightarrow> Inl (KeyError ''Nombre'')
           | [counts] \<Rightarrow> sum_by_name (dtype_of counts) names counts
           | _ \<Rightarrow> Inr Frame)
      | _ \<Rightarrow> Inl (NotOneDimensional ''Prenom''))"

text \<open>
  \<^verbatim>\<open>.nlargest(n)\<close>: a Series of dtype object is refused, and a DataFrame needs a second
  argument, so both raise TypeError. Otherwise the result is the \<open>n\<close> greatest values in
  descending order, equal values staying in the order of the Series
  (\<^verbatim>\<open>keep='first'\<close>), and nothing for \<open>n \<le> 0\<close>.
\<close>

definition nlargest :: "int \<Rightarrow> series \<Rightarrow> exn + (cell \<times> int) list" where
  "nlargest n s =
     (case s of
        Object rows \<Rightarrow> Inl DtypeObject
      | Frame \<Rightarrow> Inl (NotOneDimensional ''Nombre'')
      | Numeric rows \<Rightarrow> Inr (take (nat n) (sort_key (\<lambda>(name, total). - total) rows)))"

text \<open>Line 104.\<close>

definition top_names :: "dataframe \<Rightarrow> int \<Rightarrow> exn + (cell \<times> int) list" where
  "top_names df top_n =
     (case groupby_sum df of Inl e \<Rightarrow> Inl e | Inr s \<Rightarrow> nlargest top_n s)"

text \<open>Lines 107 and 108: one printed line per entry, numbered from 1.\<close>

definition top_lines :: "int \<Rightarrow> (cell \<times> int) list \<Rightarrow> event list" where
  "top_lines year ranked =
     map (\<lambda>(i, (prenom, occurrence)). PrintTop year i prenom occurrence)
         (zip [1..<Suc (length ranked)] ranked)"

text \<open>
  Printing a list of lines: \<^verbatim>\<open>print\<close> may raise (a closed pipe, a character the
  terminal cannot encode). The predicate says which lines standard output accepts; the
  loop stops at the first line it refuses.
\<close>

definition print_all :: "(event \<Rightarrow> bool) \<Rightarrow> event list \<Rightarrow> event list \<times> (exn + unit)" where
  "print_all accepts lines =
     (takeWhile accepts lines, if list_all accepts lines then Inr () else Inl OtherError)"

text \<open>The \<^verbatim>\<open>try\<close> block of \<^verbatim>\<open>process_top_names\<close>, lines 104 to 110.\<close>

definition top_names_try ::
  "(event \<Rightarrow> bool) \<Rightarrow> dataframe \<Rightarrow> int \<Rightarrow> int \<Rightarrow> event list \<times> (exn + (cell \<times> int) list)" where
  "top_names_try accepts df year top_n =
     (case top_names df top_n of
        Inl e \<Rightarrow> ([], Inl e)
      | Inr ranked \<Rightarrow>
          (case print_all accepts (top_lines year ranked) of
             (out, Inl e) \<Rightarrow> (InfoTop top_n year # out, Inl e)
           | (out, Inr u) \<Rightarrow> (InfoTop top_n year # out, Inr ranked)))"

text \<open>
  \<^verbatim>\<open>process_top_names(df, year, top_n)\<close>: what it logs and prints, and either the
  exception that leaves it (\<open>Inl\<close>) or the Series it returns (\<open>Inr\<close>); the handler of
  lines 111 to 113 returns the empty Series.
\<close>

definition process_top_names ::
  "(event \<Rightarrow> bool) \<Rightarrow> dataframe \<Rightarrow> int \<Rightarrow> int \<Rightarrow> event list \<times> (exn + (cell \<times> int) list)" where
  "process_top_names accepts df year top_n =
     (case top_names_try accepts df year top_n of
        (out, Inl e) \<Rightarrow> (out @ [ErrorTopNames year e], Inr [])
      | (out, Inr ranked) \<Rightarrow> (out, Inr ranked))"


section \<open>The orchestrator\<close>

text \<open>
  Line 122, \<^verbatim>\<open>pd.concat([prenoms2003, prenoms2004], ignore_index=True)\<close>. When both
  tables have the same labels in the same order, the columns are joined one to one. When
  the labels differ, the result has the labels of the first table, then those only the
  second has, and a table is padded with NaN in the columns it lacks; this needs the
  labels of each table to be distinct, and raises otherwise.
\<close>

definition concat_frames :: "dataframe \<Rightarrow> dataframe \<Rightarrow> exn + dataframe" where
  "concat_frames a b =
     (if columns a = columns b
      then Inr (map (\<lambda>((label, xs), (l, ys)). (label, xs @ ys)) (zip a b))
      else if distinct (columns a) \<and> distinct (columns b)
      then Inr (map (\<lambda>(label, xs).
                       (label, xs @ (case map_of b label of
                                       Some ys \<Rightarrow> ys
                                     | None \<Rightarrow> replicate (nrows b) NaN))) a
                @ map (\<lambda>(label, ys). (label, replicate (nrows a) NaN @ ys))
                      (filter (\<lambda>(label, ys). label \<notin> set (columns a)) b))
      else Inl InvalidIndexError)"

text \<open>
  The records of a table, as the data model has them: one triple (Sexe, Prenom, Nombre)
  per row. Where a label occurs twice, its first column is read.
\<close>

definition cells_of :: "string \<Rightarrow> dataframe \<Rightarrow> cell list" where
  "cells_of label df = (case map_of df label of Some cells \<Rightarrow> cells | None \<Rightarrow> [])"

definition records :: "dataframe \<Rightarrow> (cell \<times> cell \<times> cell) list" where
  "records df = zip (cells_of ''Sexe'' df) (zip (cells_of ''Prenom'' df) (cells_of ''Nombre'' df))"

text \<open>
  What a run of the program finds outside itself: the two input files, what
  \<^verbatim>\<open>to_csv\<close> does for each output file (\<open>None\<close> when the file is written, the
  exception otherwise) and which lines standard output accepts.
\<close>

record world =
  prenoms2003_csv :: csv_file
  prenoms2004_csv :: csv_file
  write_merged :: "exn option"
  write_grouped :: "exn option"
  stdout_accepts :: "event \<Rightarrow> bool"

text \<open>
  The handlers of an export step, lines 128 to 131 and 158 to 161: what is logged for the
  outcome of the step.
\<close>

definition export_log :: "target \<Rightarrow> exn option \<Rightarrow> event" where
  "export_log t outcome =
     (case outcome of
        None \<Rightarrow> InfoExported t
      | Some e \<Rightarrow> if e = PermissionError then ErrorPermission t else ErrorExport t e)"

text \<open>Lines 125 to 131.\<close>

definition export_merged :: "world \<Rightarrow> event list" where
  "export_merged w = [export_log Merged (write_merged w)]"

text \<open>
  Lines 139 and 140: the ranking of the rows whose \<^verbatim>\<open>Sexe\<close> is the given letter. The
  rows are selected first; a column of the selection keeps the dtype it has in the whole
  table.
\<close>

definition rows_where :: "cell list \<Rightarrow> string \<Rightarrow> cell list \<Rightarrow> cell list" where
  "rows_where sexe letter cells = map snd (filter (\<lambda>(s, c). s = StrV letter) (zip sexe cells))"

definition top_by_sexe :: "dataframe \<Rightarrow> string \<Rightarrow> exn + (cell \<times> int) list" where
  "top_by_sexe df letter =
     (case select ''Sexe'' df of
        [] \<Rightarrow> Inl (KeyError ''Sexe'')
      | [sexe] \<Rightarrow>
          (case select ''Prenom'' df of
             [] \<Rightarrow> Inl (KeyError ''Prenom'')
           | [names] \<Rightarrow>
               (case select ''Nombre'' df of
                  [] \<Rightarrow> Inl (KeyError ''Nombre'')
                | [counts] \<Rightarrow>
                    (case sum_by_name (dtype_of counts) (rows_where sexe letter names)
                                      (rows_where sexe letter counts) of
                       Inl e \<Rightarrow> Inl e
                     | Inr s \<Rightarrow> nlargest 10 s)
                | _ \<Rightarrow> Inl (NotOneDimensional ''Nombre''))
           | _ \<Rightarrow> Inl (NotOneDimensional ''Prenom''))
      | _ \<Rightarrow> Inl (NotOneDimensional ''Sexe''))"

definition sexe_lines :: "string \<Rightarrow> (cell \<times> int) list \<Rightarrow> event list" where
  "sexe_lines label ranked =
     map (\<lambda>(i, (prenom, occurrence)). PrintTopSexe label i prenom occurrence)
         (zip [1..<Suc (length ranked)] ranked)"

text \<open>The \<^verbatim>\<open>try\<close> block of lines 139 to 148, and the step with its handler.\<close>

definition by_sexe_try :: "world \<Rightarrow> dataframe \<Rightarrow> event list \<times> (exn + unit)" where
  "by_sexe_try w df =
     (case top_by_sexe df ''F'' of
        Inl e \<Rightarrow> ([], Inl e)
      | Inr filles \<Rightarrow>
          (case top_by_sexe df ''M'' of
             Inl e \<Rightarrow> ([], Inl e)
           | Inr garcons \<Rightarrow>
               (case print_all (stdout_accepts w) (sexe_lines ''Fille'' filles) of
                  (out1, Inl e) \<Rightarrow> (InfoTopSexe ''filles'' # out1, Inl e)
                | (out1, Inr u) \<Rightarrow>
                    (case print_all (stdout_accepts w) (sexe_lines ''Garcon'' garcons) of
                       (out2, r) \<Rightarrow>
                         (InfoTopSexe ''filles'' # out1 @ InfoTopSexe ''garcons'' # out2, r)))))"

definition by_sexe :: "world \<Rightarrow> dataframe \<Rightarrow> event list" where
  "by_sexe w df =
     (case by_sexe_try w df of
        (out, Inl e) \<Rightarrow> out @ [ErrorBySexe e]
      | (out, Inr u) \<Rightarrow> out)"

text \<open>Lines 154 to 161: the grouped table is computed, then written.\<close>

definition export_grouped :: "world \<Rightarrow> dataframe \<Rightarrow> event list" where
  "export_grouped w df =
     (case groupby_sum df of
        Inl e \<Rightarrow> [ErrorExport Grouped e]
      | Inr s \<Rightarrow> [export_log Grouped (write_grouped w)])"

text \<open>
  How the \<^verbatim>\<open>try\<close> block of \<^verbatim>\<open>main\<close> ends: the process exits
  (\<^verbatim>\<open>sys.exit\<close> in the loader is not caught by \<^verbatim>\<open>except Exception\<close>), an
  exception reaches the handler of line 163, or the block runs to its end.
\<close>

datatype ending = Exit int | Raised exn | Done

text \<open>Lines 133 to 161, after the merge and its export.\<close>

definition reports :: "world \<Rightarrow> dataframe \<Rightarrow> dataframe \<Rightarrow> dataframe \<Rightarrow> event list \<times> ending" where
  "reports w prenoms2003 prenoms2004 merged =
     (case process_top_names (stdout_accepts w) prenoms2003 2003 10 of
        (out1, Inl e) \<Rightarrow> (out1, Raised e)
      | (out1, Inr top2003) \<Rightarrow>
          (case process_top_names (stdout_accepts w) prenoms2004 2004 10 of
             (out2, Inl e) \<Rightarrow> (out1 @ out2, Raised e)
           | (out2, Inr top2004) \<Rightarrow>
               (out1 @ out2 @ by_sexe w merged @ export_grouped w merged, Done)))"

text \<open>The \<^verbatim>\<open>try\<close> block of \<^verbatim>\<open>main\<close>, lines 117 to 161.\<close>

definition main_try :: "world \<Rightarrow> event list \<times> ending" where
  "main_try w =
     (case load_csv_file (prenoms2003_csv w) '';'' of
        (log1, Inl status) \<Rightarrow> (log1, Exit status)
      | (log1, Inr prenoms2003) \<Rightarrow>
          (case load_csv_file (prenoms2004_csv w) '';'' of
             (log2, Inl status) \<Rightarrow> (log1 @ log2, Exit status)
           | (log2, Inr prenoms2004) \<Rightarrow>
               (case concat_frames prenoms2003 prenoms2004 of
                  Inl e \<Rightarrow> (log1 @ log2, Raised e)
                | Inr merged \<Rightarrow>
                    (case reports w prenoms2003 prenoms2004 merged of
                       (out, r) \<Rightarrow> (log1 @ log2 @ export_merged w @ out, r)))))"

text \<open>\<^verbatim>\<open>main\<close>: everything logged and printed, and the exit status of the process.\<close>

definition main :: "world \<Rightarrow> event list \<times> int" where
  "main w =
     (case main_try w of
        (out, Exit status) \<Rightarrow> (out, status)
      | (out, Raised e) \<Rightarrow> (out @ [ErrorMain e], 1)
      | (out, Done) \<Rightarrow> (out, 0))"

section \<open>Written files\<close>

text \<open>
  Line 126 writes the merged table with \<^verbatim>\<open>to_csv(..., sep=";", index=False)\<close>. Of the
  file written only the header record is modelled: the labels, separated by the
  separator. A label is put between double quotes, its double quotes doubled, when it
  holds the separator, a double quote or a line break.
\<close>

definition dquote :: char where
  "dquote = CHR 0x22"

definition needs_quotes :: "char \<Rightarrow> string \<Rightarrow> bool" where
  "needs_quotes sep field =
     list_ex (\<lambda>c. c = sep \<or> c = dquote \<or> c = CHR 0x0A \<or> c = CHR 0x0D) field"

definition quote_field :: "char \<Rightarrow> string \<Rightarrow> string" where
  "quote_field sep field =
     (if needs_quotes sep field
      then dquote # concat (map (\<lambda>c. if c = dquote then [c, c] else [c]) field) @ [dquote]
      else field)"

fun join :: "char \<Rightarrow> string list \<Rightarrow> string" where
  "join sep [] = []"
| "join sep [field] = field"
| "join sep (field # rest) = field @ sep # join sep rest"

definition header_line :: "char \<Rightarrow> dataframe \<Rightarrow> string" where
  "header_line sep df = join sep (map (quote_field sep) (columns df))"

text \<open>
  How \<^verbatim>\<open>pd.read_csv\<close> cuts a record into fields: at the separator, except inside a
  field that starts with a double quote, which runs to the closing double quote (a
  doubled one stands for the character itself).
\<close>

datatype tokenizer_state = StartField | InField | InQuotedField | QuoteInQuotedField

fun tokenize :: "char \<Rightarrow> tokenizer_state \<Rightarrow> string \<Rightarrow> string \<Rightarrow> string list" where
  "tokenize sep state field [] = [rev field]"
| "tokenize sep StartField field (c # cs) =
     (if c = dquote then tokenize sep InQuotedField [] cs
      else if c = sep then [] # tokenize sep StartField [] cs
      else tokenize sep InField [c] cs)"
| "tokenize sep InField field (c # cs) =
     (if c = sep then rev field # tokenize sep StartField [] cs
      else tokenize sep InField (c # field) cs)"
| "tokenize sep InQuotedField field (c # cs) =
     (if c = dquote then tokenize sep QuoteInQuotedField field cs
      else tokenize sep InQuotedField (c # field) cs)"
| "tokenize sep QuoteInQuotedField field (c # cs) =
     (if c = dquote then tokenize sep InQuotedField (c # field) cs
      else if c = sep then rev field # tokenize sep StartField [] cs
      else tokenize sep InField (c # field) cs)"

definition header_fields :: "char \<Rightarrow> string \<Rightarrow> string list" where
  "header_fields sep header = tokenize sep StartField [] header"

text \<open>
  A file on disk whose header record is the given text, as the loader meets it: the file
  exists, and whenever \<^verbatim>\<open>pd.read_csv\<close> with the given separator makes a table of it,
  by either engine, the labels of the table are the fields of the header record. (pandas
  renames labels that are empty or repeated; the headers used below have neither.)
\<close>

definition holds_header :: "string \<Rightarrow> char \<Rightarrow> csv_file \<Rightarrow> bool" where
  "holds_header header sep f =
     (file_exists f
      \<and> list_all (\<lambda>result. case result of
                              Inl e \<Rightarrow> True
                            | Inr df \<Rightarrow> columns df = header_fields sep header)
                  [c_engine f [sep], python_engine f [sep]])"

section \<open>Sample files\<close>

text \<open>A file that exists and parses at the first attempt into the given table.\<close>

definition parsed_file :: "string \<Rightarrow> dataframe \<Rightarrow> csv_file" where
  "parsed_file line df =
     \<lparr>file_exists = True, raw_first_line = Inr line,
      c_engine = (\<lambda>sep. Inr df), python_engine = (\<lambda>sep. Inr df)\<rparr>"

definition sample_2003 :: dataframe where
  "sample_2003 =
     [(''sexe'', [IntV 1, IntV 2, IntV 3]),
      (''prenom'', [StrV ''Jean'', StrV ''Marie'', StrV ''Jean'']),
      (''nombre'', [IntV 5, IntV 7, IntV 3])]"

text \<open>The table the loader returns for it.\<close>

definition table_2003 :: dataframe where
  "table_2003 =
     [(''Sexe'', [StrV ''M'', StrV ''F'', NaN]),
      (''Prenom'', [StrV ''Jean'', StrV ''Marie'', StrV ''Jean'']),
      (''Nombre'', [IntV 5, IntV 7, IntV 3])]"




definition table_text_count :: dataframe where
  "table_text_count =
     [(''Sexe'', [StrV ''M'']), (''Prenom'', [StrV ''Jean'']), (''Nombre'', [StrV ''abc''])]"





definition sample_no_nombre :: dataframe where
  "sample_no_nombre =
     [(''Sexe'', [IntV 1]), (''prenom'', [StrV ''Jean'']), (''annee'', [IntV 2003])]"

text \<open>
  A file with a fourth column, an empty field in column \<^verbatim>\<open>prenom\<close> and a negative
  number in column \<^verbatim>\<open>nombre\<close>, and the table loaded from it.
\<close>

definition sample_unvalidated :: dataframe where
  "sample_unvalidated =
     [(''sexe'', [IntV 1, IntV 2]),
      (''prenom'', [NaN, StrV ''Marie'']),
      (''annee'', [IntV 2003, IntV 2003]),
      (''nombre'', [IntV 5, IntV (- 7)])]"

definition table_unvalidated :: dataframe where
  "table_unvalidated =
     [(''Sexe'', [StrV ''M'', StrV ''F'']),
      (''Prenom'', [NaN, StrV ''Marie'']),
      (''annee'', [IntV 2003, IntV 2003]),
      (''Nombre'', [IntV 5, IntV (- 7)])]"

text \<open>A second input file, the table loaded from it, and the two tables merged.\<close>

definition sample_2004 :: dataframe where
  "sample_2004 = [(''sexe'', [IntV 1]), (''prenom'', [StrV ''Jean'']), (''nombre'', [IntV 3])]"

definition table_2004 :: dataframe where
  "table_2004 = [(''Sexe'', [StrV ''M'']), (''Prenom'', [StrV ''Jean'']), (''Nombre'', [IntV 3])]"

definition table_merged :: dataframe where
  "table_merged =
     [(''Sexe'', [StrV ''M'', StrV ''F'', NaN, StrV ''M'']),
      (''Prenom'', [StrV ''Jean'', StrV ''Marie'', StrV ''Jean'', StrV ''Jean'']),
      (''Nombre'', [IntV 5, IntV 7, IntV 3, IntV 3])]"

text \<open>A run where both files load, no output file can be written and printing works.\<close>

definition sample_world :: world where
  "sample_world =
     \<lparr>prenoms2003_csv = parsed_file ''sexe,prenom,nombre'' sample_2003,
      prenoms2004_csv = parsed_file ''sexe,prenom,nombre'' sample_2004,
      write_merged = Some PermissionError,
      write_grouped = Some OtherError,
      stdout_accepts = (\<lambda>line. True)\<rparr>"

text \<open>
  The file written for \<^verbatim>\<open>table_2003\<close> with separator \<^verbatim>\<open>;\<close>, as
  \<^verbatim>\<open>pd.read_csv\<close> reads it with separator \<^verbatim>\<open>,\<close>: no line holds a comma, so
  every line is one field.
\<close>

definition reread_2003 :: csv_file where
  "reread_2003 =
     parsed_file ''Sexe;Prenom;Nombre''
       [(''Sexe;Prenom;Nombre'', [StrV ''M;Jean;5'', StrV ''F;Marie;7'', StrV '';Jean;3''])]"

section \<open>Properties of the loader\<close>

lemma rename_label_Sexe: "rename_label l = ''Sexe'' \<longleftrightarrow> l = ''sexe'' \<or> l = ''Sexe''"
  by (simp add: rename_label_def required_columns_def)

lemma count_rename_Sexe:
  "''Sexe'' \<notin> set (columns p) \<Longrightarrow> count_list (columns (rename p)) ''Sexe'' = count_list (columns p) ''sexe''"
  by (induction p) (auto simp: columns_def rename_def rename_label_Sexe)

lemma map_of_rename_sexe:
  "''Sexe'' \<notin> set (columns p) \<Longrightarrow> map_of p ''sexe'' = Some codes \<Longrightarrow> map_of (rename p) ''Sexe'' = Some codes"
proof (induction p)
  case Nil
  then show ?case by simp
next
  case (Cons a p)
  obtain l cs where a: "a = (l, cs)" by (cases a)
  have nS: "l \<noteq> ''Sexe''" and nSp: "''Sexe'' \<notin> set (columns p)"
    using Cons.prems(1) by (auto simp: columns_def a)
  show ?case
  proof (cases "l = ''sexe''")
    case True
    then have "rename_label l = ''Sexe''" by (simp add: rename_label_Sexe)
    then show ?thesis using Cons.prems(2) True by (simp add: a rename_def)
  next
    case False
    then have "rename_label l \<noteq> ''Sexe''" using nS by (simp add: rename_label_Sexe)
    moreover have "map_of p ''sexe'' = Some codes" using Cons.prems(2) False by (simp add: a)
    ultimately show ?thesis using Cons.IH[OF nSp] by (simp add: a rename_def)
  qed
qed

lemma map_of_map_sexe:
  "map_of q ''Sexe'' = Some codes \<Longrightarrow>
   map_of (map (\<lambda>(label, cells). (label, if label = ''Sexe'' then map sexe_code cells else cells)) q) ''Sexe''
     = Some (map sexe_code codes)"
  by (induction q) (auto split: if_splits)

lemma distinct_count_one: "distinct xs \<Longrightarrow> x \<in> set xs \<Longrightarrow> count_list xs x = 1"
  by (induction xs) (auto simp: count_list_0_iff)

text \<open>
  C3. When the file parses into a table with the three required columns, the load succeeds
  whatever the codes in column \<^verbatim>\<open>sexe\<close> are, and the column \<^verbatim>\<open>Sexe\<close> of the
  result is the column \<^verbatim>\<open>sexe\<close> decoded cell by cell: 1 gives M, 2 gives F, any other
  cell gives NaN.
\<close>

theorem sexe_decoding:
  assumes "file_exists f" and "raw_first_line f = Inr line"
    and "snd (read_csv_strategies f) = Inr p"
    and "distinct (columns p)" and "''Sexe'' \<notin> set (columns p)"
    and "map_of p ''sexe'' = Some codes"
    and "''prenom'' \<in> set (columns p)" and "''nombre'' \<in> set (columns p)"
  shows "\<exists>log df. load_csv_file f sep = (log, Inr df)
           \<and> map_of df ''Sexe'' = Some (map sexe_code codes)
           \<and> sexe_code (IntV 1) = StrV ''M'' \<and> sexe_code (IntV 2) = StrV ''F''
           \<and> (\<forall>c. c \<noteq> IntV 1 \<longrightarrow> c \<noteq> IntV 2 \<longrightarrow> sexe_code c = NaN)"
proof -
  have sx: "''sexe'' \<in> set (columns p)"
    using assms(6) by (auto simp: columns_def dest: map_of_SomeD intro: rev_image_eqI)
  have miss: "missing_columns p = []"
    using sx assms(7,8) by (simp add: missing_columns_def required_columns_def)
  have one: "count_list (columns (rename p)) ''Sexe'' = 1"
    using count_rename_Sexe[OF assms(5)] distinct_count_one[OF assms(4) sx] by simp
  obtain log1 where rs: "read_csv_strategies f = (log1, Inr p)"
    using assms(3) by (cases "read_csv_strategies f") auto
  let ?q = "map (\<lambda>(label, cells). (label, if label = ''Sexe'' then map sexe_code cells else cells)) (rename p)"
  have ms: "map_sexe (rename p) = Inr ?q"
    using one by (simp add: map_sexe_def)
  have "snd (load_csv_file f sep) = Inr ?q"
    using assms(1,2) rs miss ms by (simp add: load_csv_file_def load_try_def Let_def)
  moreover have "map_of ?q ''Sexe'' = Some (map sexe_code codes)"
    by (rule map_of_map_sexe[OF map_of_rename_sexe[OF assms(5,6)]])
  ultimately show ?thesis
    by (cases "load_csv_file f sep") (auto simp: sexe_code_def)
qed

theorem sexe_decoding_witness:
  "file_exists (parsed_file ''sexe,prenom,nombre'' sample_2003)
   \<and> snd (read_csv_strategies (parsed_file ''sexe,prenom,nombre'' sample_2003)) = Inr sample_2003
   \<and> distinct (columns sample_2003) \<and> ''Sexe'' \<notin> set (columns sample_2003)
   \<and> map_of sample_2003 ''sexe'' = Some [IntV 1, IntV 2, IntV 3]
   \<and> (\<exists>log df. load_csv_file (parsed_file ''sexe,prenom,nombre'' sample_2003) '';'' = (log, Inr df)
         \<and> map_of df ''Sexe'' = Some [StrV ''M'', StrV ''F'', NaN])"
proof -
  let ?f = "parsed_file ''sexe,prenom,nombre'' sample_2003"
  have h1: "file_exists ?f" and h2: "raw_first_line ?f = Inr ''sexe,prenom,nombre''"
    and h3: "snd (read_csv_strategies ?f) = Inr sample_2003"
    by (simp_all add: parsed_file_def read_csv_strategies_def)
  have h4: "distinct (columns sample_2003)" and h5: "''Sexe'' \<notin> set (columns sample_2003)"
    and h6: "map_of sample_2003 ''sexe'' = Some [IntV 1, IntV 2, IntV 3]"
    and h7: "''prenom'' \<in> set (columns sample_2003)"
    and h8: "''nombre'' \<in> set (columns sample_2003)"
    by (simp_all add: sample_2003_def columns_def)
  show ?thesis
    using sexe_decoding[OF h1 h2 h3 h4 h5 h6 h7 h8, of "'';''"] h1 h3 h4 h5 h6
    by (simp add: sexe_code_def)
qed

text \<open>
  C4. When the parsed table lacks one or more of the columns \<^verbatim>\<open>sexe\<close>,
  \<^verbatim>\<open>prenom\<close>, \<^verbatim>\<open>nombre\<close> (compared as they are written), the loader
  returns no table: it logs every missing column, logs the error that lists exactly the
  missing columns, and exits with status 1.
\<close>

theorem missing_columns_fatal:
  assumes "file_exists f" and "raw_first_line f = Inr line"
    and "snd (read_csv_strategies f) = Inr p"
    and "\<not> {''sexe'', ''prenom'', ''nombre''} \<subseteq> set (columns p)"
  shows "\<exists>log missing. load_csv_file f sep = (log, Inl 1)
           \<and> ErrorUnexpectedLoad (MissingRequired missing) \<in> set log
           \<and> set missing = {''sexe'', ''prenom'', ''nombre''} - set (columns p)
           \<and> (\<forall>col \<in> set missing. ErrorColumnMissing col \<in> set log)"
proof -
  obtain log1 where rs: "read_csv_strategies f = (log1, Inr p)"
    using assms(3) by (cases "read_csv_strategies f") auto
  have ne: "missing_columns p \<noteq> []"
    using assms(4) by (auto simp: missing_columns_def required_columns_def)
  have st: "set (missing_columns p) = {''sexe'', ''prenom'', ''nombre''} - set (columns p)"
    by (auto simp: missing_columns_def required_columns_def)
  show ?thesis
    using assms(1,2) rs ne st
    by (auto simp: load_csv_file_def load_try_def Let_def load_handler_def)
qed

theorem missing_columns_fatal_witness:
  "\<not> {''sexe'', ''prenom'', ''nombre''} \<subseteq> set (columns sample_no_nombre)
   \<and> (\<exists>log missing.
         load_csv_file (parsed_file ''Sexe,prenom,annee'' sample_no_nombre) '';'' = (log, Inl 1)
         \<and> ErrorUnexpectedLoad (MissingRequired missing) \<in> set log
         \<and> set missing = {''sexe'', ''nombre''})"
proof -
  let ?f = "parsed_file ''Sexe,prenom,annee'' sample_no_nombre"
  have h1: "file_exists ?f" and h2: "raw_first_line ?f = Inr ''Sexe,prenom,annee''"
    and h3: "snd (read_csv_strategies ?f) = Inr sample_no_nombre"
    by (simp_all add: parsed_file_def read_csv_strategies_def)
  have h4: "\<not> {''sexe'', ''prenom'', ''nombre''} \<subseteq> set (columns sample_no_nombre)"
    by (simp add: sample_no_nombre_def columns_def)
  have st: "{''sexe'', ''prenom'', ''nombre''} - set (columns sample_no_nombre) = {''sexe'', ''nombre''}"
    by (simp add: sample_no_nombre_def columns_def insert_Diff_if)
  from missing_columns_fatal[OF h1 h2 h3 h4, of "'';''"]
  obtain log missing where a: "load_csv_file ?f '';'' = (log, Inl 1)"
    and b: "ErrorUnexpectedLoad (MissingRequired missing) \<in> set log"
    and c: "set missing = {''sexe'', ''prenom'', ''nombre''} - set (columns sample_no_nombre)"
    by (elim exE conjE)
  have d: "set missing = {''sexe'', ''nombre''}" using c unfolding st .
  show ?thesis
    using h4 a b d by (intro conjI exI[of _ log] exI[of _ missing])
qed

lemma load_success:
  assumes "snd (load_csv_file f sep) = Inr df"
  shows "\<exists>p. snd (read_csv_strategies f) = Inr p \<and> missing_columns p = []
           \<and> map_sexe (rename p) = Inr df"
proof -
  obtain log r where t: "load_try f = (log, r)" by (cases "load_try f")
  with assms have r: "r = Inr df"
    by (cases r) (simp_all add: load_csv_file_def)
  obtain log1 q where s: "read_csv_strategies f = (log1, q)" by (cases "read_csv_strategies f")
  from t r s show ?thesis
    by (auto simp: load_try_def Let_def split: if_splits sum.splits)
qed

lemma columns_map_sexe: "map_sexe q = Inr df \<Longrightarrow> columns df = columns q"
  by (auto simp: map_sexe_def columns_def split: if_splits)

lemma columns_rename: "columns (rename p) = map rename_label (columns p)"
  by (simp add: rename_def columns_def case_prod_unfold)

lemma renamed_present:
  assumes "missing_columns p = []"
  shows "''Sexe'' \<in> set (map rename_label (columns p))"
    and "''Prenom'' \<in> set (map rename_label (columns p))"
    and "''Nombre'' \<in> set (map rename_label (columns p))"
proof -
  from assms have "''sexe'' \<in> set (columns p)" "''prenom'' \<in> set (columns p)" "''nombre'' \<in> set (columns p)"
    by (simp_all add: missing_columns_def required_columns_def split: if_splits)
  then have "rename_label ''sexe'' \<in> rename_label ` set (columns p)"
     "rename_label ''prenom'' \<in> rename_label ` set (columns p)"
     "rename_label ''nombre'' \<in> rename_label ` set (columns p)"
    by simp_all
  then show "''Sexe'' \<in> set (map rename_label (columns p))"
    and "''Prenom'' \<in> set (map rename_label (columns p))"
    and "''Nombre'' \<in> set (map rename_label (columns p))"
    by (simp_all add: rename_label_def required_columns_def)
qed

lemma rename_label_not_source:
  "''sexe'' \<notin> set (map rename_label ls)" "''prenom'' \<notin> set (map rename_label ls)"
  "''nombre'' \<notin> set (map rename_label ls)"
  by (induction ls) (simp_all add: rename_label_def required_columns_def)

lemma cells_map_sexe:
  "map_sexe q = Inr df \<Longrightarrow>
   map snd df = map (\<lambda>(label, cells). if label = ''Sexe'' then map sexe_code cells else cells) q"
  by (auto simp: map_sexe_def case_prod_unfold split: if_splits)

text \<open>
  C6, as amended. A table returned by the loader has the columns of the parsed file, in
  their order, with \<^verbatim>\<open>sexe\<close>, \<^verbatim>\<open>prenom\<close> and \<^verbatim>\<open>nombre\<close> renamed: the
  labels \<^verbatim>\<open>Sexe\<close>, \<^verbatim>\<open>Prenom\<close> and \<^verbatim>\<open>Nombre\<close> are among them, the three
  source labels are not, and every other column of the file is kept. The cells are those
  of the file, decoded in column \<^verbatim>\<open>Sexe\<close> and unchanged elsewhere: names and counts
  are not checked.
\<close>

theorem loaded_columns:
  assumes "snd (load_csv_file f sep) = Inr df"
  shows "\<exists>p. snd (read_csv_strategies f) = Inr p
           \<and> columns df = map rename_label (columns p)
           \<and> ''Sexe'' \<in> set (columns df) \<and> ''Prenom'' \<in> set (columns df)
           \<and> ''Nombre'' \<in> set (columns df)
           \<and> ''sexe'' \<notin> set (columns df) \<and> ''prenom'' \<notin> set (columns df)
           \<and> ''nombre'' \<notin> set (columns df)
           \<and> map snd df
               = map (\<lambda>(label, cells).
                        if rename_label label = ''Sexe'' then map sexe_code cells else cells) p"
proof -
  from load_success[OF assms] obtain p where
    p: "snd (read_csv_strategies f) = Inr p" and m: "missing_columns p = []"
    and q: "map_sexe (rename p) = Inr df" by blast
  have c: "columns df = map rename_label (columns p)"
    using columns_map_sexe[OF q] by (simp add: columns_rename)
  have n: "''sexe'' \<notin> set (columns df)" "''prenom'' \<notin> set (columns df)" "''nombre'' \<notin> set (columns df)"
    unfolding c by (rule rename_label_not_source)+
  have v: "map snd df
           = map (\<lambda>(label, cells). if rename_label label = ''Sexe'' then map sexe_code cells else cells) p"
    using cells_map_sexe[OF q] by (simp add: rename_def case_prod_unfold comp_def)
  have pres: "''Sexe'' \<in> set (columns df)" "''Prenom'' \<in> set (columns df)"
    "''Nombre'' \<in> set (columns df)"
    unfolding c by (rule renamed_present[OF m])+
  show ?thesis
    by (intro exI[of _ p] conjI) (rule p c pres n v)+
qed

theorem loaded_columns_witness:
  "snd (load_csv_file (parsed_file ''sexe,prenom,annee,nombre'' sample_unvalidated) '';'')
     = Inr table_unvalidated
   \<and> (\<exists>p. snd (read_csv_strategies (parsed_file ''sexe,prenom,annee,nombre'' sample_unvalidated))
             = Inr p
         \<and> columns table_unvalidated = map rename_label (columns p)
         \<and> ''Sexe'' \<in> set (columns table_unvalidated)
         \<and> ''Prenom'' \<in> set (columns table_unvalidated)
         \<and> ''Nombre'' \<in> set (columns table_unvalidated)
         \<and> ''sexe'' \<notin> set (columns table_unvalidated)
         \<and> ''prenom'' \<notin> set (columns table_unvalidated)
         \<and> ''nombre'' \<notin> set (columns table_unvalidated)
         \<and> map snd table_unvalidated
             = map (\<lambda>(label, cells).
                      if rename_label label = ''Sexe'' then map sexe_code cells else cells) p)"
proof -
  have h: "snd (load_csv_file (parsed_file ''sexe,prenom,annee,nombre'' sample_unvalidated) '';'')
             = Inr table_unvalidated"
    by code_simp
  show ?thesis
    using h loaded_columns[OF h] by (intro conjI)
qed

text \<open>
  C6 as stated fails. The file below loads; the table has a fourth column, a record
  without a name and a record with a negative count.
\<close>

theorem loaded_invariant_counterexample:
  "snd (load_csv_file (parsed_file ''sexe,prenom,annee,nombre'' sample_unvalidated) '';'')
     = Inr table_unvalidated
   \<and> set (columns table_unvalidated) \<noteq> {''Sexe'', ''Prenom'', ''Nombre''}
   \<and> records table_unvalidated
       = [(StrV ''M'', NaN, IntV 5), (StrV ''F'', StrV ''Marie'', IntV (- 7))]"
  by code_simp

section \<open>Properties of the aggregator\<close>














































text \<open>
  C10. No exception leaves \<^verbatim>\<open>process_top_names\<close>: it always returns a Series. When
  computing the ranking or printing it raises inside the \<^verbatim>\<open>try\<close> block, the error
  is logged after what was already written and the empty Series is returned.
\<close>

theorem process_top_names_no_exception:
  "(\<exists>out ranked. process_top_names accepts df year n = (out, Inr ranked))
   \<and> (snd (top_names_try accepts df year n) = Inl e \<longrightarrow>
        process_top_names accepts df year n
          = (fst (top_names_try accepts df year n) @ [ErrorTopNames year e], Inr []))"
proof -
  obtain out r where t: "top_names_try accepts df year n = (out, r)"
    by (cases "top_names_try accepts df year n")
  show ?thesis
    by (cases r) (simp_all add: process_top_names_def t)
qed

theorem process_top_names_no_exception_witness:
  "snd (top_names_try (\<lambda>l. True) table_text_count 2003 10) = Inl DtypeObject
   \<and> process_top_names (\<lambda>l. True) table_text_count 2003 10
       = ([ErrorTopNames 2003 DtypeObject], Inr [])"
proof -
  have h: "snd (top_names_try (\<lambda>l. True) table_text_count 2003 10) = Inl DtypeObject"
    and f: "fst (top_names_try (\<lambda>l. True) table_text_count 2003 10) = []"
    by code_simp+
  from process_top_names_no_exception[of "\<lambda>l. True" table_text_count 2003 10 DtypeObject] h
  have "process_top_names (\<lambda>l. True) table_text_count 2003 10
          = (fst (top_names_try (\<lambda>l. True) table_text_count 2003 10)
               @ [ErrorTopNames 2003 DtypeObject], Inr [])"
    by (elim conjE) (erule mp)
  then show ?thesis using h unfolding f by simp
qed

section \<open>Properties of the orchestrator\<close>










lemma process_top_names_returns:
  "\<exists>out ranked. process_top_names accepts df year n = (out, Inr ranked)"
proof -
  obtain out r where t: "top_names_try accepts df year n = (out, r)"
    by (cases "top_names_try accepts df year n")
  show ?thesis
    by (cases r) (simp_all add: process_top_names_def t)
qed

text \<open>
  C8. In a run that reaches the export of the merged table (both files load and the merge
  succeeds), whatever the two \<^verbatim>\<open>to_csv\<close> calls do, the process exits with status 0
  and every later step is carried out in turn: the two yearly rankings, the rankings by
  sex and the grouped export. A failed export leaves one error line in the log:
  the permission line for PermissionError, the generic line otherwise.
\<close>

theorem export_failure_not_fatal:
  assumes "load_csv_file (prenoms2003_csv w) '';'' = (log1, Inr prenoms2003)"
    and "load_csv_file (prenoms2004_csv w) '';'' = (log2, Inr prenoms2004)"
    and "concat_frames prenoms2003 prenoms2004 = Inr merged"
  shows "main w
           = (log1 @ log2 @ [export_log Merged (write_merged w)]
                @ fst (process_top_names (stdout_accepts w) prenoms2003 2003 10)
                @ fst (process_top_names (stdout_accepts w) prenoms2004 2004 10)
                @ by_sexe w merged
                @ export_grouped w merged, 0)
         \<and> export_log t (Some e)
             = (if e = PermissionError then ErrorPermission t else ErrorExport t e)
         \<and> export_grouped w merged
             = [case groupby_sum merged of
                  Inl e \<Rightarrow> ErrorExport Grouped e
                | Inr s \<Rightarrow> export_log Grouped (write_grouped w)]"
proof -
  obtain out1 r1 where p1: "process_top_names (stdout_accepts w) prenoms2003 2003 10 = (out1, Inr r1)"
    using process_top_names_returns by blast
  obtain out2 r2 where p2: "process_top_names (stdout_accepts w) prenoms2004 2004 10 = (out2, Inr r2)"
    using process_top_names_returns by blast
  have r: "reports w prenoms2003 prenoms2004 merged
             = (out1 @ out2 @ by_sexe w merged @ export_grouped w merged, Done)"
    by (simp add: reports_def p1 p2)
  have "main w = (log1 @ log2 @ export_merged w @ out1 @ out2 @ by_sexe w merged
                    @ export_grouped w merged, 0)"
    by (simp add: main_def main_try_def assms r)
  moreover have "export_grouped w merged
             = [case groupby_sum merged of
                  Inl e \<Rightarrow> ErrorExport Grouped e
                | Inr s \<Rightarrow> export_log Grouped (write_grouped w)]"
    by (simp add: export_grouped_def split: sum.splits)
  ultimately show ?thesis
    by (simp add: export_merged_def p1 p2 export_log_def)
qed

theorem export_failure_not_fatal_witness:
  "snd (load_csv_file (prenoms2003_csv sample_world) '';'') = Inr table_2003
   \<and> snd (load_csv_file (prenoms2004_csv sample_world) '';'') = Inr table_2004
   \<and> concat_frames table_2003 table_2004 = Inr table_merged
   \<and> write_merged sample_world = Some PermissionError
   \<and> write_grouped sample_world = Some OtherError
   \<and> snd (main sample_world) = 0
   \<and> fst (main sample_world)
       = fst (load_csv_file (prenoms2003_csv sample_world) '';'')
         @ fst (load_csv_file (prenoms2004_csv sample_world) '';'')
         @ [ErrorPermission Merged,
            InfoTop 10 2003, PrintTop 2003 1 (StrV ''Jean'') 8, PrintTop 2003 2 (StrV ''Marie'') 7,
            InfoTop 10 2004, PrintTop 2004 1 (StrV ''Jean'') 3,
            InfoTopSexe ''filles'', PrintTopSexe ''Fille'' 1 (StrV ''Marie'') 7,
            InfoTopSexe ''garcons'', PrintTopSexe ''Garcon'' 1 (StrV ''Jean'') 8,
            ErrorExport Grouped OtherError]"
proof -
  let ?log1 = "fst (load_csv_file (prenoms2003_csv sample_world) '';'')"
  let ?log2 = "fst (load_csv_file (prenoms2004_csv sample_world) '';'')"
  have s1: "snd (load_csv_file (prenoms2003_csv sample_world) '';'') = Inr table_2003"
    and s2: "snd (load_csv_file (prenoms2004_csv sample_world) '';'') = Inr table_2004"
    and h3: "concat_frames table_2003 table_2004 = Inr table_merged"
    by code_simp+
  have h1: "load_csv_file (prenoms2003_csv sample_world) '';'' = (?log1, Inr table_2003)"
    using s1 by (simp add: prod_eq_iff)
  have h2: "load_csv_file (prenoms2004_csv sample_world) '';'' = (?log2, Inr table_2004)"
    using s2 by (simp add: prod_eq_iff)
  have w1: "write_merged sample_world = Some PermissionError"
    and w2: "write_grouped sample_world = Some OtherError"
    by (simp_all add: sample_world_def)
  have e1: "export_log Merged (write_merged sample_world) = ErrorPermission Merged"
    and t1: "fst (process_top_names (stdout_accepts sample_world) table_2003 2003 10)
               = [InfoTop 10 2003, PrintTop 2003 1 (StrV ''Jean'') 8, PrintTop 2003 2 (StrV ''Marie'') 7]"
    and t2: "fst (process_top_names (stdout_accepts sample_world) table_2004 2004 10)
               = [InfoTop 10 2004, PrintTop 2004 1 (StrV ''Jean'') 3]"
    and b: "by_sexe sample_world table_merged
               = [InfoTopSexe ''filles'', PrintTopSexe ''Fille'' 1 (StrV ''Marie'') 7,
                  InfoTopSexe ''garcons'', PrintTopSexe ''Garcon'' 1 (StrV ''Jean'') 8]"
    and g: "export_grouped sample_world table_merged = [ErrorExport Grouped OtherError]"
    by code_simp+
  from export_failure_not_fatal[OF h1 h2 h3]
  have m: "main sample_world
           = (?log1 @ ?log2 @ [export_log Merged (write_merged sample_world)]
                @ fst (process_top_names (stdout_accepts sample_world) table_2003 2003 10)
                @ fst (process_top_names (stdout_accepts sample_world) table_2004 2004 10)
                @ by_sexe sample_world table_merged
                @ export_grouped sample_world table_merged, 0)"
    by (rule conjunct1)
  have m1: "snd (main sample_world) = 0" unfolding m by simp
  have m2: "fst (main sample_world)
       = ?log1 @ ?log2
         @ [ErrorPermission Merged,
            InfoTop 10 2003, PrintTop 2003 1 (StrV ''Jean'') 8, PrintTop 2003 2 (StrV ''Marie'') 7,
            InfoTop 10 2004, PrintTop 2004 1 (StrV ''Jean'') 3,
            InfoTopSexe ''filles'', PrintTopSexe ''Fille'' 1 (StrV ''Marie'') 7,
            InfoTopSexe ''garcons'', PrintTopSexe ''Garcon'' 1 (StrV ''Jean'') 8,
            ErrorExport Grouped OtherError]"
    unfolding m e1 t1 t2 b g by simp
  show ?thesis
    using s1 s2 h3 w1 w2 m1 m2 by (intro conjI)
qed

section \<open>Properties of written files\<close>

lemma exported_header:
  "columns df = [''Sexe'', ''Prenom'', ''Nombre''] \<Longrightarrow> header_line CHR '';'' df = ''Sexe;Prenom;Nombre''"
  by (simp add: header_line_def quote_field_def needs_quotes_def dquote_def)

lemma exported_header_fields:
  "header_fields CHR '','' ''Sexe;Prenom;Nombre'' = [''Sexe;Prenom;Nombre'']"
  by code_simp

lemma missing_all:
  "columns p = [''Sexe;Prenom;Nombre''] \<Longrightarrow> missing_columns p = [''sexe'', ''prenom'', ''nombre'']"
  by (simp add: missing_columns_def required_columns_def)

text \<open>
  C5, as amended. A table whose columns are \<^verbatim>\<open>Sexe\<close>, \<^verbatim>\<open>Prenom\<close>,
  \<^verbatim>\<open>Nombre\<close> is not read back by the loader from the file it was exported to: the
  header of that file has none of the labels \<^verbatim>\<open>sexe\<close>, \<^verbatim>\<open>prenom\<close>,
  \<^verbatim>\<open>nombre\<close>, and the loader returns no table and exits with status 1, whatever
  separator it is given.
\<close>

theorem reload_of_export_fails:
  assumes "columns df = [''Sexe'', ''Prenom'', ''Nombre'']"
    and "holds_header (header_line CHR '';'' df) CHR '','' f"
  shows "snd (load_csv_file f sep) = Inl 1"
proof -
  have h: "header_fields CHR '','' (header_line CHR '';'' df) = [''Sexe;Prenom;Nombre'']"
    by (simp only: exported_header[OF assms(1)] exported_header_fields)
  have e: "\<And>p. c_engine f '','' = Inr p \<Longrightarrow> missing_columns p = [''sexe'', ''prenom'', ''nombre'']"
    and e': "\<And>p. python_engine f '','' = Inr p \<Longrightarrow> missing_columns p = [''sexe'', ''prenom'', ''nombre'']"
    using assms(2) unfolding holds_header_def h by (auto intro: missing_all)
  have "\<And>log p. read_csv_strategies f = (log, Inr p) \<Longrightarrow> missing_columns p \<noteq> []"
    using e e' by (auto simp: read_csv_strategies_def split: sum.splits)
  then have "\<exists>log e. load_try f = (log, Inl e)"
    by (cases "read_csv_strategies f")
       (auto simp: load_try_def Let_def split: sum.splits)
  then show ?thesis
    by (auto simp: load_csv_file_def)
qed

theorem reload_of_export_fails_witness:
  "columns table_2003 = [''Sexe'', ''Prenom'', ''Nombre'']
   \<and> holds_header (header_line CHR '';'' table_2003) CHR '','' reread_2003
   \<and> snd (load_csv_file reread_2003 '';'') = Inl 1"
proof -
  have h1: "columns table_2003 = [''Sexe'', ''Prenom'', ''Nombre'']"
    and h2: "holds_header (header_line CHR '';'' table_2003) CHR '','' reread_2003"
    by code_simp+
  show ?thesis
    using h1 h2 reload_of_export_fails[OF h1 h2, of "'';''"] by (intro conjI)
qed

text \<open>
  C5 as stated fails: \<^verbatim>\<open>table_2003\<close> is exported with the header
  \<^verbatim>\<open>Sexe;Prenom;Nombre\<close>; the loader, called with the same separator, reads that
  header as one label, reports the three source labels missing and exits.
\<close>

theorem roundtrip_counterexample:
  "header_line CHR '';'' table_2003 = ''Sexe;Prenom;Nombre''
   \<and> holds_header ''Sexe;Prenom;Nombre'' CHR '','' reread_2003
   \<and> load_csv_file reread_2003 '';''
       = ([InfoRawFirstLine ''Sexe;Prenom;Nombre'', InfoFile, InfoTotalRows 3,
           InfoColumnsFound [''Sexe;Prenom;Nombre''],
           ErrorColumnMissing ''sexe'', ErrorColumnMissing ''prenom'', ErrorColumnMissing ''nombre'',
           ErrorUnexpectedLoad (MissingRequired [''sexe'', ''prenom'', ''nombre''])],
          Inl 1)"
  by code_simp

text \<open>
  Read with the separator it was written with, the header gives the labels
  \<^verbatim>\<open>Sexe\<close>, \<^verbatim>\<open>Prenom\<close>, \<^verbatim>\<open>Nombre\<close>, and the loader, which compares labels as
  they are written, still misses all three source labels.
\<close>

lemma semicolon_header_rejected:
  "header_fields CHR '';'' ''Sexe;Prenom;Nombre'' = [''Sexe'', ''Prenom'', ''Nombre'']
   \<and> missing_columns [(''Sexe'', a), (''Prenom'', b), (''Nombre'', c)] = [''sexe'', ''prenom'', ''nombre'']"
  by (simp add: header_fields_def missing_columns_def required_columns_def columns_def dquote_def)

end
